theory Spec2Isabelle
  imports Main "HOL-Library.Sublist" "HOL-Library.Word"
begin

section \<open>Data model of \<^verbatim>\<open>src/App.tsx\<close>\<close>

text \<open>
  The component \<^verbatim>\<open>App\<close> keeps seven pieces of React state. The handlers
  close over the values of the render they were created in and queue updates
  with the setters; a handler is therefore a function from the state of its
  render to the state of the next one. JavaScript numbers that hold record
  identifiers, page numbers and counts are modelled as \<^typ>\<open>int\<close>.
\<close>

text \<open>
  A JavaScript string is a sequence of UTF-16 code units. The text of the input
  box can hold any of them, so \<^verbatim>\<open>selectCount\<close> is a list of 16-bit words.
\<close>

type_synonym code_unit = "16 word"

type_synonym js_string = "code_unit list"

text \<open>\<^verbatim>\<open>interface Artwork\<close>. The field \<^verbatim>\<open>id\<close> is named \<open>id_artwork\<close>,
  since \<open>id\<close> is the identity function of HOL.\<close>

record Artwork =
  id_artwork :: int
  title :: js_string
  place_of_origin :: js_string
  artist_display :: js_string
  inscriptions :: js_string
  date_start :: int
  date_end :: int

text \<open>
  What \<^verbatim>\<open>await fetch(...)\<close> followed by \<^verbatim>\<open>await response.json()\<close> can
  deliver to \<^verbatim>\<open>fetchData\<close>: either an exception (the request is rejected or
  the body is not JSON), or an object whose \<^verbatim>\<open>data\<close> and
  \<^verbatim>\<open>pagination.total\<close> may be missing (the code guards both with
  \<^verbatim>\<open>|| []\<close>, \<^verbatim>\<open>?.\<close> and \<^verbatim>\<open>|| 0\<close>).
\<close>

datatype ApiResponse =
  Rejected
  | Response "Artwork list option" "int option"

text \<open>The \<^verbatim>\<open>useState\<close> cells of \<^verbatim>\<open>App\<close>, under their source names.\<close>

record app_state =
  artworks :: "Artwork list"
  loading :: bool
  totalRecords :: int
  currentPage :: int
  selectedRows :: "Artwork list"
  selectCount :: js_string
  globalSelectedIds :: "int set"

text \<open>The initial values given to \<^verbatim>\<open>useState\<close>.\<close>

definition initial_state :: app_state where
  "initial_state =
     \<lparr>artworks = [], loading = False, totalRecords = 0, currentPage = 1,
      selectedRows = [], selectCount = [], globalSelectedIds = {}\<rparr>"

section \<open>The built-in \<^verbatim>\<open>parseInt\<close>\<close>

text \<open>
  \<^verbatim>\<open>parseInt(string)\<close> with no radix, after ECMAScript (sec. 19.2.5): leading
  white space is trimmed, one sign is read, a prefix \<^verbatim>\<open>0x\<close> or \<^verbatim>\<open>0X\<close>
  selects radix 16 (radix 10 otherwise), and the longest run of digits of that
  radix is the value; with no digit the result is \<^verbatim>\<open>NaN\<close>, here \<open>None\<close>.
  The result is an unbounded integer: the rounding of JavaScript numbers above
  \<open>2^53\<close>, and \<^verbatim>\<open>Infinity\<close> for a very long run of digits, keep the sign and
  every comparison with an array length, which is all the caller uses.
\<close>

text \<open>
  The white space that the trimming removes (ECMAScript sec. 12.2 and 12.3):
  TAB, VT, FF, ZWNBSP (U+FEFF), the line terminators LF, CR, U+2028 and
  U+2029, and the code points of the Unicode category Space_Separator, which
  are U+0020, U+00A0, U+1680, U+2000 to U+200A, U+202F, U+205F and U+3000. All
  of them are single code units.
\<close>

definition is_white_space :: "code_unit \<Rightarrow> bool" where
  "is_white_space c \<longleftrightarrow>
     (let n = unat c in
      n = 0x9 \<or> n = 0xA \<or> n = 0xB \<or> n = 0xC \<or> n = 0xD \<or> n = 0x20 \<or> n = 0xA0
      \<or> n = 0x1680 \<or> (0x2000 \<le> n \<and> n \<le> 0x200A) \<or> n = 0x2028 \<or> n = 0x2029
      \<or> n = 0x202F \<or> n = 0x205F \<or> n = 0x3000 \<or> n = 0xFEFF)"

text \<open>The digits \<^verbatim>\<open>0-9\<close>, \<^verbatim>\<open>a-z\<close> and \<^verbatim>\<open>A-Z\<close> with the values 0 to 35.\<close>

definition digit_value :: "code_unit \<Rightarrow> nat option" where
  "digit_value c =
     (let n = unat c in
      if 48 \<le> n \<and> n \<le> 57 then Some (n - 48)
      else if 97 \<le> n \<and> n \<le> 122 then Some (n - 87)
      else if 65 \<le> n \<and> n \<le> 90 then Some (n - 55)
      else None)"

definition radix_digit :: "nat \<Rightarrow> code_unit \<Rightarrow> nat option" where
  "radix_digit R c =
     (case digit_value c of
        None \<Rightarrow> None
      | Some d \<Rightarrow> if d < R then Some d else None)"

text \<open>The digits of radix \<open>R\<close> at the front of the text, most significant first.\<close>

fun leading_digits :: "nat \<Rightarrow> js_string \<Rightarrow> nat list" where
  "leading_digits R [] = []"
| "leading_digits R (c # cs) =
     (case radix_digit R c of
        None \<Rightarrow> []
      | Some d \<Rightarrow> d # leading_digits R cs)"

definition digits_value :: "nat \<Rightarrow> nat list \<Rightarrow> nat" where
  "digits_value R ds = foldl (\<lambda>acc d. acc * R + d) 0 ds"

definition strip_sign :: "js_string \<Rightarrow> int \<times> js_string" where
  "strip_sign S =
     (case S of
        [] \<Rightarrow> (1, [])
      | c # r \<Rightarrow>
          if c = of_char CHR ''-'' then (- 1, r)
          else if c = of_char CHR ''+'' then (1, r)
          else (1, S))"

definition strip_prefix :: "js_string \<Rightarrow> nat \<times> js_string" where
  "strip_prefix S =
     (case S of
        c # d # r \<Rightarrow>
          if c = of_char CHR ''0'' \<and> (d = of_char CHR ''x'' \<or> d = of_char CHR ''X'')
          then (16, r) else (10, S)
      | _ \<Rightarrow> (10, S))"

definition parseInt :: "js_string \<Rightarrow> int option" where
  "parseInt inputString =
     (let S = dropWhile is_white_space inputString;
          (sign, S1) = strip_sign S;
          (R, S2) = strip_prefix S1;
          Z = leading_digits R S2
      in if Z = [] then None else Some (sign * int (digits_value R Z)))"

section \<open>The selection handlers\<close>

text \<open>
  \<^verbatim>\<open>artworks.forEach(artwork => newGlobalIds.delete(artwork.id))\<close> and its
  counterpart with \<^verbatim>\<open>add\<close>: one pass over the rows, updating the copy of the
  set.
\<close>

definition delete_ids :: "Artwork list \<Rightarrow> int set \<Rightarrow> int set" where
  "delete_ids rows ids = fold (\<lambda>artwork newGlobalIds. newGlobalIds - {id_artwork artwork}) rows ids"

definition add_ids :: "Artwork list \<Rightarrow> int set \<Rightarrow> int set" where
  "add_ids rows ids = fold (\<lambda>artwork newGlobalIds. insert (id_artwork artwork) newGlobalIds) rows ids"

text \<open>\<^verbatim>\<open>onSelectionChange\<close>; the argument is \<^verbatim>\<open>e.value\<close>.\<close>

definition onSelectionChange :: "Artwork list \<Rightarrow> app_state \<Rightarrow> app_state" where
  "onSelectionChange newSelection s =
     s\<lparr>selectedRows := newSelection,
       globalSelectedIds :=
         add_ids newSelection (delete_ids (artworks s) (globalSelectedIds s))\<rparr>"

text \<open>\<^verbatim>\<open>handleSelectAll\<close>: the branch is chosen on the two lengths.\<close>

definition handleSelectAll :: "app_state \<Rightarrow> app_state" where
  "handleSelectAll s =
     (if length (selectedRows s) = length (artworks s)
      then s\<lparr>globalSelectedIds := delete_ids (artworks s) (globalSelectedIds s),
             selectedRows := []\<rparr>
      else s\<lparr>globalSelectedIds := add_ids (artworks s) (globalSelectedIds s),
             selectedRows := artworks s\<rparr>)"

text \<open>
  \<^verbatim>\<open>artworks.slice(0, Math.min(remainingCount, artworks.length))\<close> for a
  count that has passed the guard.
\<close>

definition first_rows :: "int \<Rightarrow> Artwork list \<Rightarrow> Artwork list" where
  "first_rows remainingCount rows = take (nat (min remainingCount (int (length rows)))) rows"

text \<open>
  \<^verbatim>\<open>handleCustomSelection\<close>. \<open>None\<close> is the early \<^verbatim>\<open>return\<close> of the guard
  \<^verbatim>\<open>isNaN(count) || count <= 0\<close>, taken before any setter is called. Past the
  guard the set and the view are emptied first; the later calls of the same
  setters replace those updates, and the new set is built from an empty one.
  The constants \<^verbatim>\<open>itemsPerPage\<close> and \<^verbatim>\<open>pageToCheck\<close> are never read.
\<close>

definition handleCustomSelection :: "app_state \<Rightarrow> app_state option" where
  "handleCustomSelection s =
     (case parseInt (selectCount s) of
        None \<Rightarrow> None
      | Some count \<Rightarrow>
          if count \<le> 0 then None
          else
            (let s1 = s\<lparr>globalSelectedIds := {}, selectedRows := []\<rparr>;
                 currentPageSelection = first_rows count (artworks s);
                 newGlobalIds = add_ids currentPageSelection {}
             in Some (s1\<lparr>globalSelectedIds := newGlobalIds,
                         selectedRows := currentPageSelection,
                         selectCount := []\<rparr>)))"

text \<open>The state of the render that follows a click on Submit.\<close>

definition after_handleCustomSelection :: "app_state \<Rightarrow> app_state" where
  "after_handleCustomSelection s =
     (case handleCustomSelection s of None \<Rightarrow> s | Some s' \<Rightarrow> s')"

section \<open>Loading a page\<close>

text \<open>
  \<^verbatim>\<open>fetchData\<close> is asynchronous. Up to its first \<^verbatim>\<open>await\<close> it sets
  \<^verbatim>\<open>loading\<close>; what runs after the response has arrived uses the
  \<^verbatim>\<open>globalSelectedIds\<close> of the render that called it, which is a constant of
  that closure, while the setters act on the state of the moment. The call is
  therefore split in two: \<open>fetchData_begin\<close> returns the new state and the
  closure, \<open>fetchData_settle\<close> applies a response to whatever the state is then.
\<close>

record fetch_closure =
  page :: int
  closure_globalSelectedIds :: "int set"

definition fetchData_begin :: "int \<Rightarrow> app_state \<Rightarrow> app_state \<times> fetch_closure" where
  "fetchData_begin p s =
     (s\<lparr>loading := True\<rparr>,
      \<lparr>page = p, closure_globalSelectedIds = globalSelectedIds s\<rparr>)"

text \<open>\<^verbatim>\<open>data.data?.filter(artwork => globalSelectedIds.has(artwork.id)) || []\<close>\<close>

definition currentPageSelected :: "Artwork list option \<Rightarrow> int set \<Rightarrow> Artwork list" where
  "currentPageSelected d ids =
     (case d of
        None \<Rightarrow> []
      | Some rows \<Rightarrow> filter (\<lambda>artwork. id_artwork artwork \<in> ids) rows)"

text \<open>
  The part of \<^verbatim>\<open>fetchData\<close> after the response: the \<^verbatim>\<open>try\<close> block on a
  response, the \<^verbatim>\<open>catch\<close> block on an exception, and \<^verbatim>\<open>finally\<close> in both.
  \<^verbatim>\<open>data.pagination?.total || 0\<close> is 0 for a missing total and for a total
  of 0. The \<^verbatim>\<open>catch\<close> block does not touch \<^verbatim>\<open>selectedRows\<close>.
\<close>

definition fetchData_settle :: "fetch_closure \<Rightarrow> ApiResponse \<Rightarrow> app_state \<Rightarrow> app_state" where
  "fetchData_settle c r s =
     (case r of
        Response d pagination_total \<Rightarrow>
          s\<lparr>artworks := (case d of None \<Rightarrow> [] | Some rows \<Rightarrow> rows),
            totalRecords := (case pagination_total of None \<Rightarrow> 0 | Some t \<Rightarrow> if t = 0 then 0 else t),
            selectedRows := currentPageSelected d (closure_globalSelectedIds c),
            loading := False\<rparr>
      | Rejected \<Rightarrow>
          s\<lparr>artworks := [], totalRecords := 0, loading := False\<rparr>)"

text \<open>\<^verbatim>\<open>onPageChange\<close>; the argument is \<^verbatim>\<open>event.page\<close>.\<close>

definition onPageChange :: "int \<Rightarrow> app_state \<Rightarrow> app_state" where
  "onPageChange event_page s = s\<lparr>currentPage := event_page + 1\<rparr>"

text \<open>
  \<^verbatim>\<open>useEffect(() => { fetchData(currentPage) }, [currentPage])\<close>: after a
  render in which \<^verbatim>\<open>currentPage\<close> differs from its value in the render before,
  the effect calls \<^verbatim>\<open>fetchData\<close>; otherwise nothing is requested.
\<close>

definition currentPage_effect :: "int \<Rightarrow> app_state \<Rightarrow> app_state \<times> fetch_closure option" where
  "currentPage_effect previous s =
     (if currentPage s = previous then (s, None)
      else (case fetchData_begin (currentPage s) s of (s', c) \<Rightarrow> (s', Some c)))"

text \<open>
  A click on the paginator, up to the moment the request is on its way: the
  handler, the render, and the effect of that render.
\<close>

definition navigate_begin :: "int \<Rightarrow> app_state \<Rightarrow> app_state \<times> fetch_closure option" where
  "navigate_begin event_page s = currentPage_effect (currentPage s) (onPageChange event_page s)"

text \<open>
  A navigation whose request is answered before anything else happens.
\<close>

definition navigate :: "int \<Rightarrow> ApiResponse \<Rightarrow> app_state \<Rightarrow> app_state" where
  "navigate event_page r s =
     (case navigate_begin event_page s of
        (s', None) \<Rightarrow> s'
      | (s', Some c) \<Rightarrow> fetchData_settle c r s')"

text \<open>The Page Selection View that the Selection Set determines on a page.\<close>

definition page_view :: "Artwork list \<Rightarrow> int set \<Rightarrow> Artwork list" where
  "page_view rows ids = filter (\<lambda>artwork. id_artwork artwork \<in> ids) rows"

definition view_consistent :: "app_state \<Rightarrow> bool" where
  "view_consistent s \<longleftrightarrow> selectedRows s = page_view (artworks s) (globalSelectedIds s)"

section \<open>Sample data\<close>

text \<open>The code units of a text typed in ASCII.\<close>

definition ascii :: "string \<Rightarrow> js_string" where
  "ascii cs = map of_char cs"

definition sample :: "int \<Rightarrow> Artwork" where
  "sample i =
     \<lparr>id_artwork = i, title = [], place_of_origin = [], artist_display = [],
      inscriptions = [], date_start = 0, date_end = 0\<rparr>"

text \<open>Page 1 on screen with two of its three rows selected, and one identifier
  of another page in the set.\<close>

definition page1_state :: app_state where
  "page1_state =
     initial_state\<lparr>artworks := [sample 1, sample 2, sample 3],
                   selectedRows := [sample 1, sample 2],
                   globalSelectedIds := {1, 2, 50}\<rparr>"

section \<open>The loops over the rows\<close>

lemma delete_ids_eq: "delete_ids rows ids = ids - set (map id_artwork rows)"
  unfolding delete_ids_def
  by (induction rows arbitrary: ids) auto

lemma add_ids_eq: "add_ids rows ids = ids \<union> set (map id_artwork rows)"
  unfolding add_ids_def
  by (induction rows arbitrary: ids) auto

section \<open>Evaluating \<^verbatim>\<open>parseInt\<close>\<close>

lemmas parseInt_eval =
  parseInt_def Let_def is_white_space_def strip_sign_def strip_prefix_def
  radix_digit_def digit_value_def digits_value_def ascii_def

section \<open>Subsequences of a page\<close>

lemma subseq_set_subset: "subseq ys xs \<Longrightarrow> set ys \<subseteq> set xs"
  by (induction rule: list_emb.induct) auto

lemma filter_subseq_distinct:
  "subseq ys xs \<Longrightarrow> distinct (map f xs) \<Longrightarrow> filter (\<lambda>a. f a \<in> f ` set ys) xs = ys"
proof (induction rule: list_emb.induct)
  case (list_emb_Nil zs)
  then show ?case by simp
next
  case (list_emb_Cons us vs v)
  from list_emb_Cons.hyps have "set us \<subseteq> set vs"
    by (rule subseq_set_subset)
  with list_emb_Cons.prems have "f v \<notin> f ` set us"
    by auto
  with list_emb_Cons show ?case
    by simp
next
  case (list_emb_Cons2 u v us vs)
  then have uv: "u = v" and d: "f v \<notin> f ` set vs" and IH: "filter (\<lambda>a. f a \<in> f ` set us) vs = us"
    by auto
  have "filter (\<lambda>a. f a \<in> f ` set (u # us)) vs = filter (\<lambda>a. f a \<in> f ` set us) vs"
  proof (intro filter_cong refl)
    fix a assume "a \<in> set vs"
    then have "f a \<in> f ` set vs" by (rule imageI)
    with d have "f a \<noteq> f v" by metis
    with uv show "(f a \<in> f ` set (u # us)) = (f a \<in> f ` set us)" by auto
  qed
  with IH uv show ?case
    by simp
qed

lemma page_view_subseq:
  assumes "subseq newSelection rows" and "distinct (map id_artwork rows)"
  shows "page_view rows ((ids - set (map id_artwork rows)) \<union> set (map id_artwork newSelection)) = newSelection"
proof -
  have "page_view rows ((ids - set (map id_artwork rows)) \<union> set (map id_artwork newSelection))
        = filter (\<lambda>a. id_artwork a \<in> id_artwork ` set newSelection) rows"
    unfolding page_view_def by (intro filter_cong) auto
  with assms show ?thesis
    by (simp add: filter_subseq_distinct)
qed

lemma subseq_take: "subseq (take n xs) xs"
  by (metis append_take_drop_id list_emb_append_mono subseq_order.order_refl list_emb_Nil append_Nil2)

lemma page_view_all: "page_view rows ids = rows \<longleftrightarrow> set (map id_artwork rows) \<subseteq> ids"
  unfolding page_view_def by (auto simp: filter_id_conv)

lemma page_view_none: "page_view rows ids = [] \<longleftrightarrow> set (map id_artwork rows) \<inter> ids = {}"
  unfolding page_view_def by (auto simp: filter_empty_conv)

lemma page_view_length: "length (page_view rows ids) = length rows \<longleftrightarrow> page_view rows ids = rows"
  unfolding page_view_def by (metis filter_True length_filter_less less_irrefl_nat)

section \<open>What a fetch changes\<close>

lemma fetchData_settle_ids [simp]:
  "globalSelectedIds (fetchData_settle c r s) = globalSelectedIds s"
  by (simp add: fetchData_settle_def split: ApiResponse.splits)

lemma navigate_begin_ids:
  "navigate_begin event_page s = (s', oc) \<Longrightarrow> globalSelectedIds s' = globalSelectedIds s"
  by (auto simp: navigate_begin_def currentPage_effect_def onPageChange_def fetchData_begin_def
      split: if_splits)

lemma navigate_ids [simp]: "globalSelectedIds (navigate event_page r s) = globalSelectedIds s"
  by (auto simp: navigate_def navigate_begin_def currentPage_effect_def onPageChange_def fetchData_begin_def
      split: if_splits)

lemma navigate_fetches:
  "event_page + 1 \<noteq> currentPage s \<Longrightarrow>
   navigate event_page r s =
     fetchData_settle \<lparr>page = event_page + 1, closure_globalSelectedIds = globalSelectedIds s\<rparr> r
       (s\<lparr>currentPage := event_page + 1, loading := True\<rparr>)"
  by (simp add: navigate_def navigate_begin_def currentPage_effect_def onPageChange_def fetchData_begin_def)

section \<open>The view as a projection of the set\<close>

text \<open>
  Each handler leaves \<^verbatim>\<open>selectedRows\<close> equal to the projection of
  \<^verbatim>\<open>globalSelectedIds\<close> on the rows on screen, on a page whose identifiers
  are pairwise distinct (the data model gives every record a unique
  identifier). A response does so when the set its closure holds is the set of
  the state it is applied to.
\<close>

lemma handleSelectAll_view_consistent: "view_consistent (handleSelectAll s)"
  by (auto simp: view_consistent_def page_view_def handleSelectAll_def add_ids_eq delete_ids_eq
      filter_empty_conv filter_id_conv)

lemma onSelectionChange_view_consistent:
  assumes "subseq newSelection (artworks s)" and "distinct (map id_artwork (artworks s))"
  shows "view_consistent (onSelectionChange newSelection s)"
  using page_view_subseq [OF assms, of "globalSelectedIds s"]
  by (simp add: view_consistent_def onSelectionChange_def add_ids_eq delete_ids_eq)

lemma handleCustomSelection_view_consistent:
  assumes "view_consistent s" and "distinct (map id_artwork (artworks s))"
  shows "view_consistent (after_handleCustomSelection s)"
proof (cases "handleCustomSelection s")
  case None
  with assms(1) show ?thesis
    by (simp add: after_handleCustomSelection_def)
next
  case (Some s')
  then obtain count where s': "s' = s\<lparr>globalSelectedIds := add_ids (first_rows count (artworks s)) {},
      selectedRows := first_rows count (artworks s), selectCount := []\<rparr>"
    by (auto simp: handleCustomSelection_def Let_def split: option.splits if_splits)
  have "subseq (first_rows count (artworks s)) (artworks s)"
    unfolding first_rows_def by (rule subseq_take)
  from page_view_subseq [OF this assms(2), of "{}"]
  have "page_view (artworks s) (set (map id_artwork (first_rows count (artworks s))))
      = first_rows count (artworks s)"
    by simp
  with Some s' show ?thesis
    by (simp add: after_handleCustomSelection_def view_consistent_def add_ids_eq)
qed

lemma fetchData_settle_view_consistent:
  assumes "closure_globalSelectedIds c = globalSelectedIds s"
  shows "view_consistent (fetchData_settle c (Response d t) s)"
  using assms
  by (simp add: view_consistent_def page_view_def fetchData_settle_def currentPageSelected_def
      split: option.splits)

section \<open>Bulk selection\<close>



section \<open>Identifiers outside the page\<close>

text \<open>
  C2, as the code has it. Let \<open>i\<close> be an identifier of no record of the loaded
  page. \<^verbatim>\<open>onSelectionChange\<close> with a subsequence of the page and
  \<^verbatim>\<open>handleSelectAll\<close> leave the membership of \<open>i\<close> as it was, and so does a
  declined \<^verbatim>\<open>handleCustomSelection\<close>. An accepted
  \<^verbatim>\<open>handleCustomSelection\<close> removes \<open>i\<close> from the set.
\<close>

theorem mutators_frame:
  assumes "i \<notin> set (map id_artwork (artworks s))"
  shows "(subseq newPageSelection (artworks s) \<longrightarrow>
            (i \<in> globalSelectedIds (onSelectionChange newPageSelection s) \<longleftrightarrow> i \<in> globalSelectedIds s))
         \<and> (i \<in> globalSelectedIds (handleSelectAll s) \<longleftrightarrow> i \<in> globalSelectedIds s)
         \<and> (handleCustomSelection s = None \<longrightarrow>
            (i \<in> globalSelectedIds (after_handleCustomSelection s) \<longleftrightarrow> i \<in> globalSelectedIds s))
         \<and> (handleCustomSelection s \<noteq> None \<longrightarrow>
            i \<notin> globalSelectedIds (after_handleCustomSelection s))"
proof (intro conjI impI)
  assume "subseq newPageSelection (artworks s)"
  then have "set newPageSelection \<subseteq> set (artworks s)"
    by (rule subseq_set_subset)
  with assms show "i \<in> globalSelectedIds (onSelectionChange newPageSelection s) \<longleftrightarrow> i \<in> globalSelectedIds s"
    by (auto simp: onSelectionChange_def add_ids_eq delete_ids_eq)
next
  from assms show "i \<in> globalSelectedIds (handleSelectAll s) \<longleftrightarrow> i \<in> globalSelectedIds s"
    by (auto simp: handleSelectAll_def add_ids_eq delete_ids_eq)
next
  assume "handleCustomSelection s = None"
  then show "i \<in> globalSelectedIds (after_handleCustomSelection s) \<longleftrightarrow> i \<in> globalSelectedIds s"
    by (simp add: after_handleCustomSelection_def)
next
  assume "handleCustomSelection s \<noteq> None"
  then obtain count where
    "globalSelectedIds (after_handleCustomSelection s) = add_ids (first_rows count (artworks s)) {}"
    by (auto simp: after_handleCustomSelection_def handleCustomSelection_def Let_def
        split: option.splits if_splits)
  moreover have "set (first_rows count (artworks s)) \<subseteq> set (artworks s)"
    unfolding first_rows_def by (rule set_take_subset)
  ultimately show "i \<notin> globalSelectedIds (after_handleCustomSelection s)"
    using assms by (auto simp: add_ids_eq)
qed

theorem mutators_frame_witness:
  "50 \<notin> set (map id_artwork (artworks page1_state))
   \<and> subseq [sample 3] (artworks page1_state)
   \<and> 50 \<in> globalSelectedIds (onSelectionChange [sample 3] page1_state)
   \<and> 50 \<in> globalSelectedIds (handleSelectAll page1_state)
   \<and> handleCustomSelection page1_state = None
   \<and> 50 \<in> globalSelectedIds (after_handleCustomSelection page1_state)
   \<and> handleCustomSelection (page1_state\<lparr>selectCount := ascii ''2''\<rparr>) \<noteq> None
   \<and> 50 \<notin> globalSelectedIds (after_handleCustomSelection (page1_state\<lparr>selectCount := ascii ''2''\<rparr>))"
proof -
  have h: "50 \<notin> set (map id_artwork (artworks page1_state))"
    and h2: "50 \<notin> set (map id_artwork (artworks (page1_state\<lparr>selectCount := ascii ''2''\<rparr>)))"
    and m: "50 \<in> globalSelectedIds page1_state"
    and sub: "subseq [sample 3] (artworks page1_state)"
    by (simp_all add: page1_state_def initial_state_def sample_def)
  have d: "handleCustomSelection page1_state = None"
    by (simp add: handleCustomSelection_def page1_state_def initial_state_def parseInt_eval)
  have a: "handleCustomSelection (page1_state\<lparr>selectCount := ascii ''2''\<rparr>) \<noteq> None"
    by (simp add: handleCustomSelection_def Let_def parseInt_eval)
  show ?thesis
    using h sub d a m mutators_frame [OF h, of "[sample 3]"] mutators_frame [OF h2]
    by simp
qed

text \<open>
  C2 as worded includes selectFirstN among the operations that keep the
  membership of an identifier outside the page. Identifier 50 belongs to no
  record of the loaded page, is selected before the call and is not selected
  after it.
\<close>

theorem handleCustomSelection_frame_counterexample:
  "50 \<notin> set (map id_artwork (artworks (page1_state\<lparr>selectCount := ascii ''2''\<rparr>)))
   \<and> 50 \<in> globalSelectedIds (page1_state\<lparr>selectCount := ascii ''2''\<rparr>)
   \<and> 50 \<notin> globalSelectedIds (after_handleCustomSelection (page1_state\<lparr>selectCount := ascii ''2''\<rparr>))"
  by (simp add: after_handleCustomSelection_def handleCustomSelection_def Let_def
      first_rows_def add_ids_eq page1_state_def initial_state_def sample_def parseInt_eval)

section \<open>Properties of \<^verbatim>\<open>onSelectionChange\<close>\<close>

text \<open>
  C3. For every loaded page and every new page selection that is a subsequence
  of the page's records, \<^verbatim>\<open>onSelectionChange\<close> (toggleSelection) leaves the
  Selection Set equal to the old set minus the identifiers of the page's
  records, united with the identifiers of the new page selection. In
  particular an identifier of the page that is absent from the new selection is
  deselected, and an identifier that belongs to no record of the page keeps
  its membership.
\<close>

theorem onSelectionChange_remove_then_add:
  assumes "subseq newPageSelection (artworks s)"
  shows "globalSelectedIds (onSelectionChange newPageSelection s) =
           (globalSelectedIds s - set (map id_artwork (artworks s)))
             \<union> set (map id_artwork newPageSelection)
         \<and> (\<forall>i. i \<in> set (map id_artwork (artworks s)) \<and> i \<notin> set (map id_artwork newPageSelection)
               \<longrightarrow> i \<notin> globalSelectedIds (onSelectionChange newPageSelection s))
         \<and> (\<forall>i. i \<notin> set (map id_artwork (artworks s))
               \<longrightarrow> (i \<in> globalSelectedIds (onSelectionChange newPageSelection s)
                      \<longleftrightarrow> i \<in> globalSelectedIds s))"
proof -
  from assms have "set newPageSelection \<subseteq> set (artworks s)"
    by (rule subseq_set_subset)
  then show ?thesis
    by (auto simp: onSelectionChange_def add_ids_eq delete_ids_eq)
qed

theorem onSelectionChange_remove_then_add_witness:
  "subseq [sample 2, sample 3] (artworks page1_state)
   \<and> globalSelectedIds (onSelectionChange [sample 2, sample 3] page1_state) = {2, 3, 50}
   \<and> 1 \<notin> globalSelectedIds (onSelectionChange [sample 2, sample 3] page1_state)"
proof -
  have h: "subseq [sample 2, sample 3] (artworks page1_state)"
    by (simp add: page1_state_def initial_state_def)
  show ?thesis
    using h onSelectionChange_remove_then_add [OF h]
    by (auto simp: page1_state_def initial_state_def sample_def)
qed

section \<open>The header checkbox\<close>

text \<open>
  C4, as the code has it. \<^verbatim>\<open>handleSelectAll\<close> (toggleSelectAllOnPage) decides
  on \<^verbatim>\<open>selectedRows.length === artworks.length\<close>. When the view has as many
  records as the page, two consecutive calls end with the whole page selected:
  the view is the page and the set is the old set with every identifier of the
  page added. Otherwise they end with the page deselected: the view is empty
  and the set is the old set without the identifiers of the page. The state,
  and with it the view and the membership of every identifier of the page, is
  restored exactly when beforehand the view was the whole page with every
  identifier of the page in the set, or the view was empty with no identifier
  of the page in the set. When the view is the projection of the set on the
  page, that is exactly when the view is empty or the whole page.
\<close>

theorem handleSelectAll_twice:
  "(length (selectedRows s) = length (artworks s) \<longrightarrow>
      selectedRows (handleSelectAll (handleSelectAll s)) = artworks s
      \<and> globalSelectedIds (handleSelectAll (handleSelectAll s))
          = globalSelectedIds s \<union> set (map id_artwork (artworks s)))
   \<and> (length (selectedRows s) \<noteq> length (artworks s) \<longrightarrow>
      selectedRows (handleSelectAll (handleSelectAll s)) = []
      \<and> globalSelectedIds (handleSelectAll (handleSelectAll s))
          = globalSelectedIds s - set (map id_artwork (artworks s)))
   \<and> (handleSelectAll (handleSelectAll s) = s \<longleftrightarrow>
        (selectedRows s = artworks s \<and> set (map id_artwork (artworks s)) \<subseteq> globalSelectedIds s)
        \<or> (selectedRows s = [] \<and> set (map id_artwork (artworks s)) \<inter> globalSelectedIds s = {}))
   \<and> (view_consistent s \<longrightarrow>
        (handleSelectAll (handleSelectAll s) = s \<longleftrightarrow>
           selectedRows s = [] \<or> selectedRows s = artworks s))"
proof -
  let ?ids = "set (map id_artwork (artworks s))"
  let ?t = "handleSelectAll (handleSelectAll s)"
  have full: "selectedRows ?t = artworks s \<and> globalSelectedIds ?t = globalSelectedIds s \<union> ?ids"
    if "length (selectedRows s) = length (artworks s)"
    using that by (cases "artworks s = []") (auto simp: handleSelectAll_def add_ids_eq delete_ids_eq)
  have part: "selectedRows ?t = [] \<and> globalSelectedIds ?t = globalSelectedIds s - ?ids"
    if "length (selectedRows s) \<noteq> length (artworks s)"
    using that by (auto simp: handleSelectAll_def add_ids_eq delete_ids_eq)
  have rest: "?t = s \<longleftrightarrow>
      selectedRows ?t = selectedRows s \<and> globalSelectedIds ?t = globalSelectedIds s"
    by (cases s) (auto simp: handleSelectAll_def)
  have restored: "?t = s \<longleftrightarrow>
        (selectedRows s = artworks s \<and> ?ids \<subseteq> globalSelectedIds s)
        \<or> (selectedRows s = [] \<and> ?ids \<inter> globalSelectedIds s = {})"
  proof (cases "length (selectedRows s) = length (artworks s)")
    case True
    with full have "selectedRows ?t = artworks s"
      and "globalSelectedIds ?t = globalSelectedIds s \<union> ?ids"
      by simp_all
    with True show ?thesis
      unfolding rest by auto
  next
    case False
    with part have "selectedRows ?t = []"
      and "globalSelectedIds ?t = globalSelectedIds s - ?ids"
      by simp_all
    with False show ?thesis
      unfolding rest by auto
  qed
  have projected: "?t = s \<longleftrightarrow> selectedRows s = [] \<or> selectedRows s = artworks s"
    if v: "view_consistent s"
  proof -
    from v have sel: "selectedRows s = page_view (artworks s) (globalSelectedIds s)"
      by (simp add: view_consistent_def)
    have "selectedRows s = artworks s \<longleftrightarrow> ?ids \<subseteq> globalSelectedIds s"
      unfolding sel by (rule page_view_all)
    moreover have "selectedRows s = [] \<longleftrightarrow> ?ids \<inter> globalSelectedIds s = {}"
      unfolding sel by (rule page_view_none)
    ultimately show ?thesis
      unfolding restored by blast
  qed
  from full part restored projected show ?thesis
    by blast
qed

theorem handleSelectAll_twice_witness:
  "length (selectedRows (page1_state\<lparr>selectedRows := [sample 1, sample 2, sample 3],
                                      globalSelectedIds := {1, 2, 3, 50}\<rparr>))
     = length (artworks (page1_state\<lparr>selectedRows := [sample 1, sample 2, sample 3],
                                      globalSelectedIds := {1, 2, 3, 50}\<rparr>))
   \<and> handleSelectAll (handleSelectAll (page1_state\<lparr>selectedRows := [sample 1, sample 2, sample 3],
                                      globalSelectedIds := {1, 2, 3, 50}\<rparr>))
       = page1_state\<lparr>selectedRows := [sample 1, sample 2, sample 3],
                                      globalSelectedIds := {1, 2, 3, 50}\<rparr>
   \<and> length (selectedRows page1_state) \<noteq> length (artworks page1_state)
   \<and> view_consistent page1_state
   \<and> selectedRows (handleSelectAll (handleSelectAll page1_state)) = []
   \<and> globalSelectedIds (handleSelectAll (handleSelectAll page1_state)) = {50}
   \<and> handleSelectAll (handleSelectAll page1_state) \<noteq> page1_state
   \<and> globalSelectedIds (handleSelectAll (handleSelectAll
         (page1_state\<lparr>artworks := [sample 49, sample 50], selectedRows := [sample 49, sample 50],
                       globalSelectedIds := {1}\<rparr>))) = {1, 49, 50}
   \<and> handleSelectAll (handleSelectAll
         (page1_state\<lparr>artworks := [sample 49, sample 50], selectedRows := [sample 49, sample 50],
                       globalSelectedIds := {1}\<rparr>))
       \<noteq> page1_state\<lparr>artworks := [sample 49, sample 50], selectedRows := [sample 49, sample 50],
                       globalSelectedIds := {1}\<rparr>"
proof -
  have v: "view_consistent page1_state"
    by (simp add: view_consistent_def page_view_def page1_state_def initial_state_def sample_def)
  show ?thesis
    using v
      handleSelectAll_twice [of "page1_state\<lparr>selectedRows := [sample 1, sample 2, sample 3],
                                      globalSelectedIds := {1, 2, 3, 50}\<rparr>"]
      handleSelectAll_twice [of page1_state]
      handleSelectAll_twice [of "page1_state\<lparr>artworks := [sample 49, sample 50],
          selectedRows := [sample 49, sample 50], globalSelectedIds := {1}\<rparr>"]
    by (auto simp: page1_state_def initial_state_def sample_def)
qed

text \<open>
  C4 as worded promises the original view for every starting set. With two of
  three records selected, the view after two calls is empty and identifier 1
  has lost its membership.
\<close>

theorem handleSelectAll_twice_counterexample:
  "view_consistent page1_state
   \<and> selectedRows page1_state = [sample 1, sample 2]
   \<and> selectedRows (handleSelectAll (handleSelectAll page1_state)) = []
   \<and> 1 \<in> globalSelectedIds page1_state
   \<and> 1 \<notin> globalSelectedIds (handleSelectAll (handleSelectAll page1_state))"
  by (simp add: view_consistent_def page_view_def handleSelectAll_def add_ids_eq delete_ids_eq
      page1_state_def initial_state_def sample_def)

section \<open>Reconciliation after a fetch\<close>

text \<open>
  What \<^verbatim>\<open>fetchData\<close> computes on a response: the subsequence, in page order,
  of the rows received whose identifier is in the set held by its closure,
  which is the set of the state in which the request began. An empty page
  gives an empty view.
\<close>

lemma fetchData_settle_view:
  "selectedRows (fetchData_settle c (Response (Some rows) t) s')
     = filter (\<lambda>artwork. id_artwork artwork \<in> closure_globalSelectedIds c) rows
   \<and> subseq (selectedRows (fetchData_settle c (Response (Some rows) t) s')) rows
   \<and> (\<forall>a. a \<in> set (selectedRows (fetchData_settle c (Response (Some rows) t) s'))
           \<longleftrightarrow> a \<in> set rows \<and> id_artwork a \<in> closure_globalSelectedIds c)
   \<and> artworks (fetchData_settle c (Response (Some rows) t) s') = rows
   \<and> closure_globalSelectedIds (snd (fetchData_begin p s)) = globalSelectedIds s
   \<and> selectedRows (fetchData_settle (snd (fetchData_begin p s)) (Response (Some rows) t)
        (fst (fetchData_begin p s)))
       = filter (\<lambda>artwork. id_artwork artwork \<in> globalSelectedIds s) rows
   \<and> selectedRows (fetchData_settle c (Response (Some []) t) s') = []
   \<and> artworks (fetchData_settle c (Response (Some []) t) s') = []"
  by (auto simp: fetchData_settle_def fetchData_begin_def currentPageSelected_def)

text \<open>
  C5. The view a fetch produces should be the subsequence of the page's records
  whose identifier is in the Selection Set. The set that \<^verbatim>\<open>fetchData\<close> reads
  is the one of the render that issued the request, not the Selection Set at
  the time of the response. Identifier 50, of page 2, is selected while page 1
  is on screen and page 2 is requested; before the response the first record
  of page 1 is bulk-selected, which leaves the Selection Set at \<open>{1}\<close>. On the
  response the view is record 50, while the records of the page whose
  identifier is in the Selection Set are none.
\<close>

theorem fetchData_view_stale_set:
  "navigate_begin 1 (page1_state\<lparr>selectCount := ascii ''1''\<rparr>)
     = (page1_state\<lparr>selectCount := ascii ''1'', currentPage := 2, loading := True\<rparr>,
        Some \<lparr>page = 2, closure_globalSelectedIds = {1, 2, 50}\<rparr>)
   \<and> globalSelectedIds
        (after_handleCustomSelection
          (page1_state\<lparr>selectCount := ascii ''1'', currentPage := 2, loading := True\<rparr>)) = {1}
   \<and> artworks (fetchData_settle \<lparr>page = 2, closure_globalSelectedIds = {1, 2, 50}\<rparr>
        (Response (Some [sample 49, sample 50]) (Some 100))
        (after_handleCustomSelection
          (page1_state\<lparr>selectCount := ascii ''1'', currentPage := 2, loading := True\<rparr>)))
       = [sample 49, sample 50]
   \<and> globalSelectedIds (fetchData_settle \<lparr>page = 2, closure_globalSelectedIds = {1, 2, 50}\<rparr>
        (Response (Some [sample 49, sample 50]) (Some 100))
        (after_handleCustomSelection
          (page1_state\<lparr>selectCount := ascii ''1'', currentPage := 2, loading := True\<rparr>)))
       = {1}
   \<and> selectedRows (fetchData_settle \<lparr>page = 2, closure_globalSelectedIds = {1, 2, 50}\<rparr>
        (Response (Some [sample 49, sample 50]) (Some 100))
        (after_handleCustomSelection
          (page1_state\<lparr>selectCount := ascii ''1'', currentPage := 2, loading := True\<rparr>)))
       = [sample 50]
   \<and> filter (\<lambda>artwork. id_artwork artwork \<in> {1}) [sample 49, sample 50] = []"
  by (simp add: navigate_begin_def currentPage_effect_def
      onPageChange_def fetchData_begin_def fetchData_settle_def currentPageSelected_def
      after_handleCustomSelection_def handleCustomSelection_def first_rows_def add_ids_eq
      page1_state_def initial_state_def sample_def parseInt_eval)

text \<open>
  C6. When the fetch fails, \<^verbatim>\<open>fetchData\<close> ends in its \<^verbatim>\<open>catch\<close> branch:
  the rows become the empty list, the total count becomes 0, and the Selection
  Set is the one before the fetch, at the beginning of the request, at its
  failure, and over a whole navigation that fails. The result is a state in
  every case: nothing is thrown past the handler.
\<close>

theorem fetchData_failure:
  "artworks (fetchData_settle c Rejected s') = []
   \<and> totalRecords (fetchData_settle c Rejected s') = 0
   \<and> globalSelectedIds (fetchData_settle c Rejected s') = globalSelectedIds s'
   \<and> globalSelectedIds (fst (fetchData_begin p s)) = globalSelectedIds s
   \<and> globalSelectedIds (navigate event_page Rejected s) = globalSelectedIds s
   \<and> (event_page + 1 \<noteq> currentPage s \<longrightarrow>
        artworks (navigate event_page Rejected s) = []
        \<and> totalRecords (navigate event_page Rejected s) = 0)"
  by (simp add: navigate_fetches) (simp add: fetchData_settle_def fetchData_begin_def)

theorem fetchData_failure_witness:
  "1 + 1 \<noteq> currentPage page1_state
   \<and> artworks (navigate 1 Rejected page1_state) = []
   \<and> totalRecords (navigate 1 Rejected page1_state) = 0
   \<and> globalSelectedIds (navigate 1 Rejected page1_state) = {1, 2, 50}"
proof -
  have h: "1 + 1 \<noteq> currentPage page1_state"
    by (simp add: page1_state_def initial_state_def)
  show ?thesis
    using h fetchData_failure [where event_page = 1 and s = page1_state]
    by (simp add: page1_state_def initial_state_def)
qed

section \<open>Navigation\<close>

text \<open>
  C7. Let record \<open>X\<close> of the loaded page A be selected by
  \<^verbatim>\<open>onSelectionChange\<close>, or by a call of \<^verbatim>\<open>handleSelectAll\<close> that selects
  the page. After a navigation to another page B and a navigation back to A,
  each answered with a page and with no other event in between, the
  identifier of \<open>X\<close> is in the Selection Set and \<open>X\<close> is in the view of page A;
  neither navigation changes the Selection Set.
\<close>

theorem selection_survives_navigation:
  assumes "(s1 = onSelectionChange newPageSelection s \<and> X \<in> set newPageSelection)
           \<or> (s1 = handleSelectAll s \<and> length (selectedRows s) \<noteq> length (artworks s))"
    and "X \<in> set (artworks s)"
    and "eventB + 1 \<noteq> currentPage s"
    and "eventA + 1 = currentPage s"
  shows "id_artwork X \<in> globalSelectedIds s1
         \<and> globalSelectedIds (navigate eventB (Response (Some rowsB) tB) s1) = globalSelectedIds s1
         \<and> globalSelectedIds (navigate eventA (Response (Some (artworks s)) tA)
              (navigate eventB (Response (Some rowsB) tB) s1)) = globalSelectedIds s1
         \<and> id_artwork X \<in> globalSelectedIds (navigate eventA (Response (Some (artworks s)) tA)
              (navigate eventB (Response (Some rowsB) tB) s1))
         \<and> X \<in> set (selectedRows (navigate eventA (Response (Some (artworks s)) tA)
              (navigate eventB (Response (Some rowsB) tB) s1)))
         \<and> artworks (navigate eventA (Response (Some (artworks s)) tA)
              (navigate eventB (Response (Some rowsB) tB) s1)) = artworks s"
proof -
  let ?s2 = "navigate eventB (Response (Some rowsB) tB) s1"
  let ?s3 = "navigate eventA (Response (Some (artworks s)) tA) ?s2"
  from assms(1) have page: "currentPage s1 = currentPage s"
    by (auto simp: onSelectionChange_def handleSelectAll_def)
  from assms(1,2) have sel: "id_artwork X \<in> globalSelectedIds s1"
    by (auto simp: onSelectionChange_def handleSelectAll_def add_ids_eq)
  from assms(3) page have s2: "?s2 =
      fetchData_settle \<lparr>page = eventB + 1, closure_globalSelectedIds = globalSelectedIds s1\<rparr>
        (Response (Some rowsB) tB) (s1\<lparr>currentPage := eventB + 1, loading := True\<rparr>)"
    by (simp add: navigate_fetches)
  then have "currentPage ?s2 = eventB + 1"
    by (simp add: fetchData_settle_def)
  with assms(3,4) have "eventA + 1 \<noteq> currentPage ?s2"
    by simp
  then have s3: "?s3 =
      fetchData_settle \<lparr>page = eventA + 1, closure_globalSelectedIds = globalSelectedIds ?s2\<rparr>
        (Response (Some (artworks s)) tA) (?s2\<lparr>currentPage := eventA + 1, loading := True\<rparr>)"
    by (rule navigate_fetches)
  have rows: "artworks ?s3 = artworks s"
    and view: "selectedRows ?s3 = filter (\<lambda>a. id_artwork a \<in> globalSelectedIds s1) (artworks s)"
    by (simp_all add: s3 fetchData_settle_def currentPageSelected_def)
  from view assms(2) sel have "X \<in> set (selectedRows ?s3)"
    by simp
  with sel rows show ?thesis
    by simp
qed

theorem selection_survives_navigation_witness:
  "sample 3 \<in> set (artworks page1_state)
   \<and> 1 + 1 \<noteq> currentPage page1_state \<and> 0 + 1 = currentPage page1_state
   \<and> 3 \<in> globalSelectedIds (navigate 0 (Response (Some (artworks page1_state)) (Some 100))
         (navigate 1 (Response (Some [sample 49, sample 50]) (Some 100))
           (onSelectionChange [sample 3] page1_state)))
   \<and> sample 3 \<in> set (selectedRows (navigate 0 (Response (Some (artworks page1_state)) (Some 100))
         (navigate 1 (Response (Some [sample 49, sample 50]) (Some 100))
           (onSelectionChange [sample 3] page1_state))))
   \<and> length (selectedRows page1_state) \<noteq> length (artworks page1_state)
   \<and> sample 3 \<in> set (selectedRows (navigate 0 (Response (Some (artworks page1_state)) (Some 100))
         (navigate 1 (Response (Some [sample 49, sample 50]) (Some 100))
           (handleSelectAll page1_state))))"
proof -
  have x: "sample 3 \<in> set (artworks page1_state)"
    and b: "1 + 1 \<noteq> currentPage page1_state" and a: "0 + 1 = currentPage page1_state"
    and l: "length (selectedRows page1_state) \<noteq> length (artworks page1_state)"
    by (simp_all add: page1_state_def initial_state_def)
  have t: "(onSelectionChange [sample 3] page1_state = onSelectionChange [sample 3] page1_state
            \<and> sample 3 \<in> set [sample 3])
           \<or> (onSelectionChange [sample 3] page1_state = handleSelectAll page1_state
            \<and> length (selectedRows page1_state) \<noteq> length (artworks page1_state))"
    by simp
  have u: "(handleSelectAll page1_state = onSelectionChange [] page1_state \<and> sample 3 \<in> set [])
           \<or> (handleSelectAll page1_state = handleSelectAll page1_state
            \<and> length (selectedRows page1_state) \<noteq> length (artworks page1_state))"
    using l by simp
  show ?thesis
    using x b a l selection_survives_navigation [OF t x b a, of "[sample 49, sample 50]" "Some 100" "Some 100"]
      selection_survives_navigation [OF u x b a, of "[sample 49, sample 50]" "Some 100" "Some 100"]
    by (simp add: sample_def)
qed

text \<open>
  C8, as the code has it. \<^verbatim>\<open>fetchData\<close> never compares the page it asked
  for with \<^verbatim>\<open>currentPage\<close>. When a navigation to page C is requested while
  the request for page B is in flight, the response for B is applied when it
  arrives, whether before or after the response for C: it replaces the rows
  and the view, which is the projection on B's rows of the set held when B was
  requested, while \<^verbatim>\<open>currentPage\<close> stays at C.
\<close>

theorem stale_response_applied:
  assumes "navigate_begin eventB s = (s1, Some cB)"
    and "navigate_begin eventC s1 = (s2, Some cC)"
  shows "page cB = eventB + 1 \<and> currentPage s2 = eventC + 1 \<and> page cB \<noteq> currentPage s2
         \<and> artworks (fetchData_settle cB (Response (Some rowsB) tB) s2) = rowsB
         \<and> selectedRows (fetchData_settle cB (Response (Some rowsB) tB) s2)
             = page_view rowsB (globalSelectedIds s)
         \<and> artworks (fetchData_settle cB (Response (Some rowsB) tB) (fetchData_settle cC rC s2)) = rowsB
         \<and> selectedRows (fetchData_settle cB (Response (Some rowsB) tB) (fetchData_settle cC rC s2))
             = page_view rowsB (globalSelectedIds s)
         \<and> currentPage (fetchData_settle cB (Response (Some rowsB) tB) (fetchData_settle cC rC s2))
             = eventC + 1"
proof -
  from assms(1) have b: "eventB + 1 \<noteq> currentPage s"
    and s1: "s1 = s\<lparr>currentPage := eventB + 1, loading := True\<rparr>"
    and cB: "cB = \<lparr>page = eventB + 1, closure_globalSelectedIds = globalSelectedIds s\<rparr>"
    by (auto simp: navigate_begin_def currentPage_effect_def onPageChange_def fetchData_begin_def
        split: if_splits)
  from assms(2) have c: "eventC + 1 \<noteq> currentPage s1"
    and s2: "s2 = s1\<lparr>currentPage := eventC + 1, loading := True\<rparr>"
    by (auto simp: navigate_begin_def currentPage_effect_def onPageChange_def fetchData_begin_def
        split: if_splits)
  from c s1 have "eventB + 1 \<noteq> eventC + 1"
    by simp
  with s1 s2 cB show ?thesis
    by (cases rC) (simp_all add: fetchData_settle_def currentPageSelected_def page_view_def)
qed

theorem stale_response_applied_witness:
  "navigate_begin 1 page1_state
     = (page1_state\<lparr>currentPage := 2, loading := True\<rparr>,
        Some \<lparr>page = 2, closure_globalSelectedIds = {1, 2, 50}\<rparr>)
   \<and> navigate_begin 2 (page1_state\<lparr>currentPage := 2, loading := True\<rparr>)
     = (page1_state\<lparr>currentPage := 3, loading := True\<rparr>,
        Some \<lparr>page = 3, closure_globalSelectedIds = {1, 2, 50}\<rparr>)
   \<and> artworks (fetchData_settle \<lparr>page = 2, closure_globalSelectedIds = {1, 2, 50}\<rparr>
         (Response (Some [sample 49, sample 50]) (Some 100))
         (page1_state\<lparr>currentPage := 3, loading := True\<rparr>))
       = [sample 49, sample 50]
   \<and> selectedRows (fetchData_settle \<lparr>page = 2, closure_globalSelectedIds = {1, 2, 50}\<rparr>
         (Response (Some [sample 49, sample 50]) (Some 100))
         (page1_state\<lparr>currentPage := 3, loading := True\<rparr>))
       = [sample 50]"
proof -
  have b: "navigate_begin 1 page1_state
     = (page1_state\<lparr>currentPage := 2, loading := True\<rparr>,
        Some \<lparr>page = 2, closure_globalSelectedIds = {1, 2, 50}\<rparr>)"
    by (simp add: navigate_begin_def currentPage_effect_def onPageChange_def fetchData_begin_def
        page1_state_def initial_state_def)
  have c: "navigate_begin 2 (page1_state\<lparr>currentPage := 2, loading := True\<rparr>)
     = (page1_state\<lparr>currentPage := 3, loading := True\<rparr>,
        Some \<lparr>page = 3, closure_globalSelectedIds = {1, 2, 50}\<rparr>)"
    by (simp add: navigate_begin_def currentPage_effect_def onPageChange_def fetchData_begin_def
        page1_state_def initial_state_def)
  have g: "globalSelectedIds page1_state = {1, 2, 50}"
    by (simp add: page1_state_def)
  show ?thesis
    using b c stale_response_applied [OF b c, of "[sample 49, sample 50]" "Some 100"]
    by (simp add: g page_view_def sample_def)
qed

text \<open>
  C8 as worded has the older response discarded. Page 2 is requested, then
  page 3; the response for page 3 arrives and is shown; the response for page
  2 arrives afterwards and replaces the rows and the view although
  \<^verbatim>\<open>currentPage\<close> is 3.
\<close>

theorem stale_response_counterexample:
  "navigate_begin 1 page1_state
     = (page1_state\<lparr>currentPage := 2, loading := True\<rparr>,
        Some \<lparr>page = 2, closure_globalSelectedIds = {1, 2, 50}\<rparr>)
   \<and> navigate_begin 2 (page1_state\<lparr>currentPage := 2, loading := True\<rparr>)
     = (page1_state\<lparr>currentPage := 3, loading := True\<rparr>,
        Some \<lparr>page = 3, closure_globalSelectedIds = {1, 2, 50}\<rparr>)
   \<and> artworks (fetchData_settle \<lparr>page = 3, closure_globalSelectedIds = {1, 2, 50}\<rparr>
         (Response (Some [sample 61, sample 62]) (Some 100))
         (page1_state\<lparr>currentPage := 3, loading := True\<rparr>))
       = [sample 61, sample 62]
   \<and> currentPage (fetchData_settle \<lparr>page = 3, closure_globalSelectedIds = {1, 2, 50}\<rparr>
         (Response (Some [sample 61, sample 62]) (Some 100))
         (page1_state\<lparr>currentPage := 3, loading := True\<rparr>))
       = 3
   \<and> artworks (fetchData_settle \<lparr>page = 2, closure_globalSelectedIds = {1, 2, 50}\<rparr>
         (Response (Some [sample 49, sample 50]) (Some 100))
         (fetchData_settle \<lparr>page = 3, closure_globalSelectedIds = {1, 2, 50}\<rparr>
           (Response (Some [sample 61, sample 62]) (Some 100))
           (page1_state\<lparr>currentPage := 3, loading := True\<rparr>)))
       = [sample 49, sample 50]
   \<and> selectedRows (fetchData_settle \<lparr>page = 2, closure_globalSelectedIds = {1, 2, 50}\<rparr>
         (Response (Some [sample 49, sample 50]) (Some 100))
         (fetchData_settle \<lparr>page = 3, closure_globalSelectedIds = {1, 2, 50}\<rparr>
           (Response (Some [sample 61, sample 62]) (Some 100))
           (page1_state\<lparr>currentPage := 3, loading := True\<rparr>)))
       = [sample 50]
   \<and> currentPage (fetchData_settle \<lparr>page = 2, closure_globalSelectedIds = {1, 2, 50}\<rparr>
         (Response (Some [sample 49, sample 50]) (Some 100))
         (fetchData_settle \<lparr>page = 3, closure_globalSelectedIds = {1, 2, 50}\<rparr>
           (Response (Some [sample 61, sample 62]) (Some 100))
           (page1_state\<lparr>currentPage := 3, loading := True\<rparr>)))
       = 3"
  by (simp add: navigate_begin_def currentPage_effect_def onPageChange_def fetchData_begin_def
      fetchData_settle_def currentPageSelected_def page1_state_def initial_state_def sample_def)

text \<open>
  C9. The view should equal the projection of the Selection Set on the loaded
  rows after every handler and every answered fetch. The handlers keep this
  (see the lemmas on \<open>view_consistent\<close> above), but a response is reconciled
  with the set of the render that issued the request. Here identifier 50, of
  page 2, is selected while page 1 is on screen; page 2 is requested; before
  the response arrives the first record of page 1 is bulk-selected, which
  empties the set of everything else; the response then marks record 50 as
  selected in the view although 50 is no longer in the set.
\<close>

theorem stale_closure_breaks_view:
  "view_consistent (page1_state\<lparr>selectCount := ascii ''1''\<rparr>)
   \<and> navigate_begin 1 (page1_state\<lparr>selectCount := ascii ''1''\<rparr>)
     = (page1_state\<lparr>selectCount := ascii ''1'', currentPage := 2, loading := True\<rparr>,
        Some \<lparr>page = 2, closure_globalSelectedIds = {1, 2, 50}\<rparr>)
   \<and> after_handleCustomSelection (page1_state\<lparr>selectCount := ascii ''1'', currentPage := 2, loading := True\<rparr>)
     = page1_state\<lparr>currentPage := 2, loading := True,
                   globalSelectedIds := {1}, selectedRows := [sample 1]\<rparr>
   \<and> view_consistent (page1_state\<lparr>currentPage := 2, loading := True,
                   globalSelectedIds := {1}, selectedRows := [sample 1]\<rparr>)
   \<and> fetchData_settle \<lparr>page = 2, closure_globalSelectedIds = {1, 2, 50}\<rparr>
        (Response (Some [sample 49, sample 50]) (Some 100))
        (page1_state\<lparr>currentPage := 2, loading := True,
                   globalSelectedIds := {1}, selectedRows := [sample 1]\<rparr>)
     = page1_state\<lparr>currentPage := 2, loading := False, totalRecords := 100,
                   artworks := [sample 49, sample 50],
                   globalSelectedIds := {1}, selectedRows := [sample 50]\<rparr>
   \<and> page_view [sample 49, sample 50] {1} = []
   \<and> \<not> view_consistent (page1_state\<lparr>currentPage := 2, loading := False, totalRecords := 100,
                   artworks := [sample 49, sample 50],
                   globalSelectedIds := {1}, selectedRows := [sample 50]\<rparr>)"
  by (simp add: view_consistent_def page_view_def navigate_begin_def currentPage_effect_def
      onPageChange_def fetchData_begin_def fetchData_settle_def currentPageSelected_def
      after_handleCustomSelection_def handleCustomSelection_def first_rows_def add_ids_eq
      page1_state_def initial_state_def sample_def parseInt_eval)

section \<open>The guard of the bulk selection\<close>

text \<open>
  C10. \<^verbatim>\<open>handleCustomSelection\<close> declines, leaving the whole state and so the
  Selection Set and the view unchanged, exactly when \<^verbatim>\<open>parseInt\<close> of the
  input is \<^verbatim>\<open>NaN\<close> or at most 0. A text with a numeric prefix is accepted
  as its leading integer: \<^verbatim>\<open>"3.7"\<close> selects the first 3 records and
  \<^verbatim>\<open>"5x"\<close> the first 5.
\<close>

theorem handleCustomSelection_declines_iff:
  "(handleCustomSelection s = None \<longleftrightarrow>
      parseInt (selectCount s) = None \<or> (\<exists>count. parseInt (selectCount s) = Some count \<and> count \<le> 0))
   \<and> (handleCustomSelection s = None \<longrightarrow> after_handleCustomSelection s = s)
   \<and> parseInt (ascii ''3.7'') = Some 3
   \<and> parseInt (ascii ''5x'') = Some 5
   \<and> (selectCount s = ascii ''3.7'' \<longrightarrow>
        handleCustomSelection s \<noteq> None
        \<and> selectedRows (after_handleCustomSelection s) = take 3 (artworks s)
        \<and> globalSelectedIds (after_handleCustomSelection s) = set (map id_artwork (take 3 (artworks s))))
   \<and> (selectCount s = ascii ''5x'' \<longrightarrow>
        handleCustomSelection s \<noteq> None
        \<and> selectedRows (after_handleCustomSelection s) = take 5 (artworks s)
        \<and> globalSelectedIds (after_handleCustomSelection s) = set (map id_artwork (take 5 (artworks s))))"
proof -
  have p3: "parseInt (ascii ''3.7'') = Some 3" and p5: "parseInt (ascii ''5x'') = Some 5"
    by (simp_all add: parseInt_eval)
  have take_min: "take (nat (min k (int (length rows)))) rows = take (nat k) rows" for k and rows :: "Artwork list"
    by (cases "k \<le> int (length rows)") (simp_all add: min_def)
  have guard: "handleCustomSelection s = None \<longleftrightarrow>
      parseInt (selectCount s) = None \<or> (\<exists>count. parseInt (selectCount s) = Some count \<and> count \<le> 0)"
    by (auto simp: handleCustomSelection_def Let_def split: option.splits)
  have declined: "handleCustomSelection s = None \<longrightarrow> after_handleCustomSelection s = s"
    by (simp add: after_handleCustomSelection_def)
  have accepted: "parseInt (selectCount s) = Some k \<Longrightarrow> 0 < k \<Longrightarrow>
      handleCustomSelection s \<noteq> None
      \<and> selectedRows (after_handleCustomSelection s) = take (nat k) (artworks s)
      \<and> globalSelectedIds (after_handleCustomSelection s) = set (map id_artwork (take (nat k) (artworks s)))" for k
    by (simp add: after_handleCustomSelection_def handleCustomSelection_def Let_def
        first_rows_def add_ids_eq take_min)
  from accepted [of 3] accepted [of 5] p3 p5 guard declined show ?thesis
    by simp
qed

theorem handleCustomSelection_declines_iff_witness:
  "handleCustomSelection (page1_state\<lparr>selectCount := ascii ''0''\<rparr>) = None
   \<and> after_handleCustomSelection (page1_state\<lparr>selectCount := ascii ''0''\<rparr>) = page1_state\<lparr>selectCount := ascii ''0''\<rparr>
   \<and> selectedRows (after_handleCustomSelection (page1_state\<lparr>selectCount := ascii ''3.7''\<rparr>))
       = [sample 1, sample 2, sample 3]
   \<and> globalSelectedIds (after_handleCustomSelection (page1_state\<lparr>selectCount := ascii ''3.7''\<rparr>)) = {1, 2, 3}
   \<and> selectedRows (after_handleCustomSelection (page1_state\<lparr>selectCount := ascii ''5x''\<rparr>))
       = [sample 1, sample 2, sample 3]
   \<and> handleCustomSelection (page1_state\<lparr>selectCount := 0xA0 # ascii ''2''\<rparr>) \<noteq> None
   \<and> handleCustomSelection (page1_state\<lparr>selectCount := ascii ''x5''\<rparr>) = None"
proof -
  have p0: "parseInt (selectCount (page1_state\<lparr>selectCount := ascii ''0''\<rparr>)) = Some 0"
    and ps: "parseInt (selectCount (page1_state\<lparr>selectCount := 0xA0 # ascii ''2''\<rparr>)) = Some 2"
    and px: "parseInt (selectCount (page1_state\<lparr>selectCount := ascii ''x5''\<rparr>)) = None"
    by (simp_all add: parseInt_eval)
  show ?thesis
    using p0 ps px
      handleCustomSelection_declines_iff [of "page1_state\<lparr>selectCount := 0xA0 # ascii ''2''\<rparr>"]
      handleCustomSelection_declines_iff [of "page1_state\<lparr>selectCount := ascii ''x5''\<rparr>"]
      handleCustomSelection_declines_iff [of "page1_state\<lparr>selectCount := ascii ''0''\<rparr>"]
      handleCustomSelection_declines_iff [of "page1_state\<lparr>selectCount := ascii ''3.7''\<rparr>"]
      handleCustomSelection_declines_iff [of "page1_state\<lparr>selectCount := ascii ''5x''\<rparr>"]
    by (auto simp: page1_state_def initial_state_def sample_def)
qed

end
